theory Spec2Isabelle
  imports Main "HOL-Library.Sublist"
begin

section \<open>The libvirt provider process (cmd/provider-libvirt/main.go)\<close>

text \<open>
  The program is one \<open>main\<close> function without loops: it reads the command line and
  the environment, wires a gRPC server, a gRPC health service and an HTTP health
  server, starts two goroutines and waits for a signal. The model below follows the
  main goroutine statement by statement. Everything the process reads is a field of a
  \<open>World\<close>; everything it does is an \<open>event\<close> of a trace; every way the function can
  end is an \<open>outcome\<close>.
\<close>

subsection \<open>Log levels and the environment\<close>

text \<open>The four named constants of \<open>slog.Level\<close> (an integer type) that the program uses.\<close>

datatype Level = LevelDebug | LevelInfo | LevelWarn | LevelError

fun Level_int :: "Level \<Rightarrow> int" where
  "Level_int LevelDebug = - 4"
| "Level_int LevelInfo = 0"
| "Level_int LevelWarn = 4"
| "Level_int LevelError = 8"

fun Level_String :: "Level \<Rightarrow> string" where
  "Level_String LevelDebug = ''DEBUG''"
| "Level_String LevelInfo = ''INFO''"
| "Level_String LevelWarn = ''WARN''"
| "Level_String LevelError = ''ERROR''"

text \<open>\<open>os.Getenv\<close>: the value of the variable, or the empty string when it is unset.\<close>

definition Getenv :: "(string \<rightharpoonup> string) \<Rightarrow> string \<Rightarrow> string" where
  "Getenv env k = (case env k of None \<Rightarrow> [] | Some v \<Rightarrow> v)"

text \<open>\<open>getLogLevel\<close> (main.go, lines 151 to 162): a switch on \<open>LOG_LEVEL\<close>.\<close>

definition getLogLevel :: "(string \<rightharpoonup> string) \<Rightarrow> Level" where
  "getLogLevel env =
     (let v = Getenv env ''LOG_LEVEL'' in
      if v = ''debug'' then LevelDebug
      else if v = ''warn'' then LevelWarn
      else if v = ''error'' then LevelError
      else LevelInfo)"

subsection \<open>The logger\<close>

datatype HandlerKind = JSONHandler | TextHandler

record Handler =
  kind :: HandlerKind
  min_level :: Level

text \<open>
  Lines 53 to 63: the handler is chosen by \<open>LOG_FORMAT\<close>; both branches pass
  \<open>getLogLevel()\<close> as the handler's level.
\<close>

definition newHandler :: "(string \<rightharpoonup> string) \<Rightarrow> Handler" where
  "newHandler env =
     (let logFormat = Getenv env ''LOG_FORMAT'' in
      if logFormat = ''json''
      then \<lparr>kind = JSONHandler, min_level = getLogLevel env\<rparr>
      else \<lparr>kind = TextHandler, min_level = getLogLevel env\<rparr>)"

text \<open>A handler writes a record when the record's level is at least the handler's.\<close>

definition Enabled :: "Handler \<Rightarrow> Level \<Rightarrow> bool" where
  "Enabled h l = (Level_int (min_level h) \<le> Level_int l)"

datatype attr_value =
    AString string
  | AInt int
  | AStrings "string list"
  | AError string

subsection \<open>Command-line flags\<close>

text \<open>
  The two flags of the program, both integers, registered with \<open>flag.IntVar\<close> on the
  default flag set (which exits the process on a parse error). \<open>flag_Parse\<close> follows
  the flag package's loop over the arguments: an argument shorter than two characters
  or not starting with a minus sign ends the flags, as does \<open>--\<close>; one or two minus
  signs introduce a name; the value follows an equals sign or is the next argument.
  The conversion of the value to an integer is a parameter.
\<close>

record Flags =
  port :: int
  healthPort :: int

datatype ParseError = ErrHelp | ErrFlag

definition split_eq :: "string \<Rightarrow> string \<times> string option" where
  "split_eq name =
     (case name of
        [] \<Rightarrow> ([], None)
      | c # cs \<Rightarrow>
          (case dropWhile (\<lambda>x. x \<noteq> CHR ''='') cs of
             [] \<Rightarrow> (name, None)
           | _ # v \<Rightarrow> (c # takeWhile (\<lambda>x. x \<noteq> CHR ''='') cs, Some v)))"

definition set_flag :: "(string \<Rightarrow> int option) \<Rightarrow> string \<Rightarrow> string \<Rightarrow> Flags \<Rightarrow> Flags option" where
  "set_flag atoi name v fl =
     (case atoi v of
        None \<Rightarrow> None
      | Some n \<Rightarrow>
          if name = ''port'' then Some (fl\<lparr>port := n\<rparr>)
          else if name = ''health-port'' then Some (fl\<lparr>healthPort := n\<rparr>)
          else None)"

fun flag_Parse :: "(string \<Rightarrow> int option) \<Rightarrow> string list \<Rightarrow> Flags \<Rightarrow> ParseError + Flags" where
  "flag_Parse atoi [] fl = Inr fl"
| "flag_Parse atoi (s # rest) fl =
     (if length s < 2 \<or> hd s \<noteq> CHR ''-'' then Inr fl
      else if s = ''--'' then Inr fl
      else
        (let name0 = (if s ! 1 = CHR ''-'' then drop 2 s else drop 1 s) in
         if name0 = [] \<or> hd name0 = CHR ''-'' \<or> hd name0 = CHR ''='' then Inl ErrFlag
         else
           (case split_eq name0 of
              (name, inline) \<Rightarrow>
                if name \<noteq> ''port'' \<and> name \<noteq> ''health-port''
                then (if name = ''help'' \<or> name = ''h'' then Inl ErrHelp else Inl ErrFlag)
                else
                  (case inline of
                     Some v \<Rightarrow>
                       (case set_flag atoi name v fl of
                          None \<Rightarrow> Inl ErrFlag
                        | Some fl' \<Rightarrow> flag_Parse atoi rest fl')
                   | None \<Rightarrow>
                       (case rest of
                          [] \<Rightarrow> Inl ErrFlag
                        | v # rest' \<Rightarrow>
                            (case set_flag atoi name v fl of
                               None \<Rightarrow> Inl ErrFlag
                             | Some fl' \<Rightarrow> flag_Parse atoi rest' fl'))))))"

subsection \<open>The main goroutine\<close>

datatype ServingStatus = UNKNOWN | SERVING | NOT_SERVING | SERVICE_UNKNOWN

datatype event =
    Stdout string
  | signal_NotifyContext
  | grpc_NewServer
  | libvirt_New
  | libvirt_NewServer
  | RegisterProviderServer
  | health_NewServer
  | RegisterHealthServer
  | SetServingStatus string ServingStatus
  | net_Listen int
  | Log Handler Level string "(string \<times> attr_value) list"
  | http_NewServeMux
  | HandleFunc string
  | http_Server int
  | go_Serve
  | go_ListenAndServe
  | ctx_Done
  | GracefulStop
  | Shutdown
  | stop

datatype outcome = Exit int | Panic | Blocked | Returned

text \<open>
  What the process reads: \<open>os.Args\<close>, the environment, \<open>version.String()\<close>, the
  integer conversion behind \<open>flag.IntVar\<close>, the error (if any) of \<open>net.Listen\<close> on a
  port, and whether SIGINT or SIGTERM ever arrives.
\<close>

record World =
  Args :: "string list"
  Environ :: "string \<rightharpoonup> string"
  version_String :: string
  ParseInt :: "string \<Rightarrow> int option"
  Listen_err :: "int \<Rightarrow> string option"
  interrupted :: bool

text \<open>The capability and platform lists of the start-up record (lines 98 to 102).\<close>

definition capabilities :: "string list" where
  "capabilities =
     [''core'', ''snapshots'', ''linked-clones'', ''online-reconfigure'', ''qemu-guest-agent'']"

definition supported_platforms :: "string list" where
  "supported_platforms = [''kvm'', ''qemu'', ''libvirt'']"

text \<open>Lines 67 to 86: from the signal context to the call of \<open>net.Listen\<close>.\<close>

definition wiring :: "int \<Rightarrow> event list" where
  "wiring p =
     [signal_NotifyContext, grpc_NewServer, libvirt_New, libvirt_NewServer,
      RegisterProviderServer, health_NewServer, RegisterHealthServer,
      SetServingStatus [] SERVING, net_Listen p]"

text \<open>Lines 92 to 137: the start-up record, the HTTP health server, the two goroutines.\<close>

definition startup :: "World \<Rightarrow> Handler \<Rightarrow> Flags \<Rightarrow> event list" where
  "startup w h fl =
     [Log h LevelInfo ''Starting Libvirt provider server''
        [(''version'', AString (version_String w)),
         (''log_level'', AString (Level_String (getLogLevel (Environ w)))),
         (''log_format'', AString (Getenv (Environ w) ''LOG_FORMAT'')),
         (''port'', AInt (port fl)),
         (''health_port'', AInt (healthPort fl)),
         (''capabilities'', AStrings capabilities),
         (''supported_platforms'', AStrings supported_platforms)],
      http_NewServeMux, HandleFunc ''/healthz'', HandleFunc ''/readyz'',
      http_Server (healthPort fl),
      Log h LevelInfo ''Starting HTTP health server'' [(''port'', AInt (healthPort fl))],
      go_Serve, go_ListenAndServe, ctx_Done]"

text \<open>Lines 142 to 146: the shutdown after the signal; then \<open>main\<close> returns and the
  deferred \<open>stop()\<close> of line 68 runs.\<close>

definition shutdown :: "Handler \<Rightarrow> event list" where
  "shutdown h =
     [Log h LevelInfo ''Shutting down gRPC server...'' [], GracefulStop,
      Log h LevelInfo ''Shutting down HTTP health server...'' [], Shutdown, stop]"

text \<open>
  \<open>main\<close>. The version check reads \<open>os.Args[1]\<close> only when there are at least two
  arguments. \<open>flag.Parse\<close> parses \<open>os.Args[1:]\<close>, which panics on an empty
  \<open>os.Args\<close>; a parse error exits with status 2, a request for help with status 0.
  The bodies of the two goroutines run concurrently with the main goroutine and are
  not part of this trace; the trace records that they were started. (Either of them
  ends the process with status 1 when its server fails.) A run that never receives
  a signal stays at \<open>ctx.Done()\<close>: its outcome is \<open>Blocked\<close>.
\<close>

definition main :: "World \<Rightarrow> event list \<times> outcome" where
  "main w =
     (if length (Args w) > 1 \<and> Args w ! 1 = ''--version''
      then ([Stdout (''virtrigaud-provider-libvirt '' @ version_String w @ [CHR 0x0A])], Exit 0)
      else
        (case Args w of
           [] \<Rightarrow> ([], Panic)
         | _ # args \<Rightarrow>
             (case flag_Parse (ParseInt w) args \<lparr>port = 9443, healthPort = 8080\<rparr> of
                Inl ErrHelp \<Rightarrow> ([], Exit 0)
              | Inl ErrFlag \<Rightarrow> ([], Exit 2)
              | Inr fl \<Rightarrow>
                  (let h = newHandler (Environ w) in
                   case Listen_err w (port fl) of
                     Some err \<Rightarrow>
                       (wiring (port fl) @
                          [Log h LevelError ''Failed to listen'' [(''error'', AError err)]],
                        Exit 1)
                   | None \<Rightarrow>
                       if interrupted w
                       then (wiring (port fl) @ startup w h fl @ shutdown h, Returned)
                       else (wiring (port fl) @ startup w h fl, Blocked)))))"

subsection \<open>The HTTP health endpoints\<close>

text \<open>
  Lines 106 to 114. A handler runs in the process, so it could read any of the process's
  state; the model passes it the state of the process's dependencies at the time of
  the request, next to the request. \<open>healthz_handler\<close> and \<open>readyz_handler\<close> are the two
  closures: what each hands to its \<open>ResponseWriter\<close>, a status 200 and a fixed body,
  without reading the request or anything else.
\<close>

record Dependencies =
  store_connected :: bool
  provider_reachable :: bool

record Request =
  http_method :: string
  path :: string

record Response =
  status :: nat
  body :: string

definition StatusOK :: nat where
  "StatusOK = 200"

definition healthz_handler :: "Dependencies \<Rightarrow> Request \<Rightarrow> Response" where
  "healthz_handler d r = \<lparr>status = StatusOK, body = ''ok''\<rparr>"


text \<open>
  What the HTTP server sends for what a handler wrote: the response to a request of
  method \<open>HEAD\<close> carries the status and no body (the server drops the bytes the
  handler writes); for every other method the body is sent as written.
\<close>

definition respond :: "Request \<Rightarrow> Response \<Rightarrow> Response" where
  "respond r resp = (if http_method r = ''HEAD'' then resp\<lparr>body := []\<rparr> else resp)"

text \<open>The two endpoints as a client sees them: the handler's output, sent by the server.\<close>

definition healthz :: "Dependencies \<Rightarrow> Request \<Rightarrow> Response" where
  "healthz d r = respond r (healthz_handler d r)"




subsection \<open>The gRPC health service\<close>

text \<open>
  The health service keeps a status per service name; \<open>SetServingStatus\<close> overwrites the
  entry of one name. \<open>health_after m es\<close> is the status table after the events \<open>es\<close>,
  starting from the table \<open>m\<close> the service was created with.
\<close>

fun health_step :: "(string \<rightharpoonup> ServingStatus) \<Rightarrow> event \<Rightarrow> (string \<rightharpoonup> ServingStatus)" where
  "health_step m (SetServingStatus s st) = m(s \<mapsto> st)"
| "health_step m _ = m"

definition health_after :: "(string \<rightharpoonup> ServingStatus) \<Rightarrow> event list \<Rightarrow> (string \<rightharpoonup> ServingStatus)" where
  "health_after m es = foldl health_step m es"

fun status_change :: "event \<Rightarrow> bool" where
  "status_change (SetServingStatus s st) = True"
| "status_change _ = False"

section \<open>Task tracker, provider server and controller\<close>

text \<open>
  The sources at hand hold the provider's entry point only. The task tracker, the
  provider server and the reconciliation controller are modelled from the design
  document, each definition saying which part of it it follows.
\<close>

subsection \<open>Task tracker\<close>

text \<open>Modelled from the spec: the error taxonomy of the provider protocol (section 7);
  the type is missing from the sources.\<close>

datatype ErrorKind =
  NotFound | AlreadyExists | Unavailable | InvalidArgument | Internal | ErrCanceled | Unimplemented

text \<open>Modelled from the spec: the phase of a task with its result or error (section 3,
  Task; section 4.4, Poll); the type is missing from the sources. The result of a
  succeeded task is the reference of the VM it worked on.\<close>

datatype TaskState = Pending | Running | Succeeded string | Failed ErrorKind | Canceled

text \<open>Modelled from the spec: a tracked task (section 3): its idempotency key, its
  handle, its phase and the mark that \<open>Cancel\<close> leaves; the type is missing from the
  sources. Creation and retention times are left out.\<close>

record 'k Task =
  key :: 'k
  handle :: nat
  state :: TaskState
  cancel_requested :: bool

text \<open>Modelled from the spec: the task tracker's registry (section 4.4), together with
  the backend its operation functions act on and a count of the operation functions
  invoked so far; the type is missing from the sources.\<close>

record ('k, 'b) Tracker =
  tasks :: "'k Task list"
  backend :: 'b
  invocations :: nat

text \<open>Modelled from the spec: a handle no task of the registry has yet; the tracker's
  allocation of handles is missing from the sources.\<close>

definition fresh_handle :: "'k Task list \<Rightarrow> nat" where
  "fresh_handle ts = Suc (foldr (\<lambda>x m. max (handle x) m) ts 0)"

text \<open>Modelled from the spec: \<open>Register(key, operationFn)\<close> (section 4.4), missing from
  the sources: "if key already registered (regardless of phase), returns the existing
  handle and does not invoke operationFn again". On a miss the operation function is
  invoked on the backend and its outcome is tracked under a new handle (section 4.3:
  an operation that is synchronous in the backend is wrapped as an already terminal
  task).\<close>

definition Register ::
  "'k \<Rightarrow> ('b \<Rightarrow> 'b \<times> TaskState) \<Rightarrow> ('k, 'b) Tracker \<Rightarrow> nat \<times> ('k, 'b) Tracker" where
  "Register k operationFn t =
     (case find (\<lambda>x. key x = k) (tasks t) of
        Some x \<Rightarrow> (handle x, t)
      | None \<Rightarrow>
          (case operationFn (backend t) of
             (b, st) \<Rightarrow>
               (fresh_handle (tasks t),
                t\<lparr>tasks := tasks t @
                     [\<lparr>key = k, handle = fresh_handle (tasks t), state = st,
                       cancel_requested = False\<rparr>],
                  backend := b,
                  invocations := Suc (invocations t)\<rparr>)))"

text \<open>Modelled from the spec: \<open>Poll(handle)\<close> (section 4.4), missing from the sources. A
  handle the registry does not hold gives \<open>None\<close>, the spec's \<open>NotFound\<close>, which is
  not a failure of the task.\<close>

definition Poll :: "nat \<Rightarrow> ('k, 'b) Tracker \<Rightarrow> TaskState option" where
  "Poll h t = map_option state (find (\<lambda>x. handle x = h) (tasks t))"

text \<open>Modelled from the spec: \<open>Cancel(handle)\<close> (section 4.4), missing from the sources:
  "best-effort; marks for cancellation, does not guarantee backend abort".\<close>

definition Cancel :: "nat \<Rightarrow> ('k, 'b) Tracker \<Rightarrow> ('k, 'b) Tracker" where
  "Cancel h t =
     t\<lparr>tasks := map (\<lambda>x. if handle x = h then x\<lparr>cancel_requested := True\<rparr> else x) (tasks t)\<rparr>"

text \<open>Modelled from the spec: a history of calls that change the registry (section 4.4:
  Register and Cancel; Poll changes nothing), for statements about what holds "later".
  The eviction of old terminal entries, whose window the spec leaves open, is not part
  of a history.\<close>

datatype ('k, 'b) TrackerCall =
    DoRegister 'k "'b \<Rightarrow> 'b \<times> TaskState"
  | DoCancel nat

text \<open>Modelled from the spec: the registry after a history of such calls, each call as
  section 4.4 describes it; the tracker's code is missing from the sources.\<close>

fun run :: "('k, 'b) TrackerCall list \<Rightarrow> ('k, 'b) Tracker \<Rightarrow> ('k, 'b) Tracker" where
  "run [] t = t"
| "run (DoRegister k f # cs) t = run cs (snd (Register k f t))"
| "run (DoCancel h # cs) t = run cs (Cancel h t)"

subsection \<open>Provider server\<close>

text \<open>Modelled from the spec: the mutating operations of the protocol that the claims
  speak of (section 4.2): Create, Delete and the three power operations; the protocol's
  definition is missing from the sources.\<close>

datatype Operation = OpCreate | OpDelete | OpPowerOn | OpPowerOff | OpPowerOffGraceful

text \<open>Modelled from the spec: the hypervisor as the protocol sees it, the list of the VMs
  that exist, by reference. Its interface is not idempotent (section 1): creating
  twice makes two VMs. Every operation on a VM that does not exist answers
  \<open>NotFound\<close>. The backend's code is missing from the sources.\<close>

fun backend_call :: "Operation \<Rightarrow> string \<Rightarrow> string list \<Rightarrow> string list \<times> ErrorKind option" where
  "backend_call OpCreate ref b = (b @ [ref], None)"
| "backend_call OpDelete ref b =
     (if ref \<in> set b then (remove1 ref b, None) else (b, Some NotFound))"
| "backend_call op ref b = (if ref \<in> set b then (b, None) else (b, Some NotFound))"

text \<open>Modelled from the spec: the operation function a provider server registers for a
  mutating call (section 4.3), missing from the sources. The backend's error becomes
  the task's error, except that Delete "must succeed (terminal Succeeded) if target
  already absent" (section 4.2).\<close>

definition operationFn :: "Operation \<Rightarrow> string \<Rightarrow> string list \<Rightarrow> string list \<times> TaskState" where
  "operationFn op ref b =
     (case backend_call op ref b of
        (b', None) \<Rightarrow> (b', Succeeded ref)
      | (b', Some e) \<Rightarrow>
          if op = OpDelete \<and> e = NotFound then (b', Succeeded ref) else (b', Failed e))"

text \<open>Modelled from the spec: a mutating call on the provider server (section 4.3),
  missing from the sources: "it first checks the Task Tracker for the idempotency key; a
  hit returns the existing handle unconditionally", a miss tracks a new task.\<close>

definition serve ::
  "Operation \<Rightarrow> string \<Rightarrow> 'k \<Rightarrow> ('k, string list) Tracker \<Rightarrow> nat \<times> ('k, string list) Tracker" where
  "serve op ref k t = Register k (operationFn op ref) t"

text \<open>Modelled from the spec: \<open>Create(spec, idempotencyKey)\<close> (section 4.2), missing from
  the sources; the spec of the VM is reduced to its reference.\<close>

definition Create ::
  "string \<Rightarrow> 'k \<Rightarrow> ('k, string list) Tracker \<Rightarrow> nat \<times> ('k, string list) Tracker" where
  "Create ref k t = serve OpCreate ref k t"

text \<open>Modelled from the spec: \<open>Delete(vmRef, idempotencyKey)\<close> (section 4.2), missing from
  the sources.\<close>

definition Delete ::
  "string \<Rightarrow> 'k \<Rightarrow> ('k, string list) Tracker \<Rightarrow> nat \<times> ('k, string list) Tracker" where
  "Delete ref k t = serve OpDelete ref k t"

subsection \<open>Reconciliation controller\<close>

text \<open>Modelled from the spec: the power states (section 3); the type is missing from the
  sources.\<close>

datatype PowerState = On | Off | OffGraceful | Suspended

text \<open>Modelled from the spec: the states of the per-resource state machine (section 4.1);
  the type is missing from the sources.\<close>

datatype Lifecycle =
  VMPending | Provisioning | VMRunning | Stopped | VMSuspended | Deleting | Deleted | VMFailed

text \<open>Modelled from the spec: the status of a condition, "True/False/Unknown"
  (section 3); the type is missing from the sources.\<close>

datatype ConditionStatus = CTrue | CFalse | CUnknown

text \<open>Modelled from the spec: a condition (section 3): type, status, reason and message,
  without its transition time; the type is missing from the sources.\<close>

record Condition =
  ctype :: string
  cstatus :: ConditionStatus
  reason :: string
  message :: string

text \<open>Modelled from the spec: the VM resource (section 3), reduced to the fields the
  passes below read or write: identity and generation, the VM's reference, the
  desired power state, the request for deletion, and the observed status (lifecycle
  state, power state, conditions, the active task with the operation it tracks). The
  type is missing from the sources.\<close>

record Resource =
  uid :: string
  generation :: nat
  vm_ref :: string
  desired_power :: PowerState
  deletion_requested :: bool
  lifecycle :: Lifecycle
  observed_power :: PowerState
  conditions :: "Condition list"
  active_task :: "(nat \<times> Operation) option"

text \<open>Modelled from the spec: the task key, "deterministic, derived from (resource UID,
  resource generation, operation kind)" (section 3); its construction is missing from
  the sources.\<close>

definition task_key :: "Resource \<Rightarrow> Operation \<Rightarrow> string \<times> nat \<times> Operation" where
  "task_key r op = (uid r, generation r, op)"

text \<open>Modelled from the spec: capability gating (sections 3 and 4.1, step 4), missing
  from the sources: an operation whose capability the provider lacks is replaced by its
  declared fallback, "hard power-off when guest-agent absent". The spec declares no
  other fallback.\<close>

definition gate :: "string set \<Rightarrow> Operation \<Rightarrow> Operation" where
  "gate caps op =
     (if op = OpPowerOffGraceful \<and> ''guest-agent'' \<notin> caps then OpPowerOff else op)"

text \<open>Modelled from the spec: the diff between desired and observed state (section 4.1,
  step 3: "power state mismatch, spec generation changed, deletion requested"), as the
  operation it calls for; missing from the sources. A deleted or failed resource is
  left alone; a requested deletion comes first; a resource not yet provisioned is
  created; an observed power state \<open>Off\<close> satisfies both \<open>Off\<close> and
  \<open>OffGraceful\<close>. The protocol has no operation that suspends a VM, so a desired
  \<open>Suspended\<close> calls for none.\<close>

definition diff :: "Resource \<Rightarrow> Operation option" where
  "diff r =
     (if lifecycle r = Deleted \<or> lifecycle r = VMFailed then None
      else if deletion_requested r then Some OpDelete
      else if lifecycle r = VMPending then Some OpCreate
      else
        (case desired_power r of
           On \<Rightarrow> if observed_power r = On then None else Some OpPowerOn
         | Off \<Rightarrow> if observed_power r = Off then None else Some OpPowerOff
         | OffGraceful \<Rightarrow> if observed_power r = Off then None else Some OpPowerOffGraceful
         | Suspended \<Rightarrow> None))"

text \<open>Modelled from the spec: the state a resource enters when an operation is issued
  (section 3, lifecycle: Provisioning while it is created, Deleting while it is
  deleted); missing from the sources.\<close>

fun entering :: "Operation \<Rightarrow> Lifecycle \<Rightarrow> Lifecycle" where
  "entering OpCreate l = Provisioning"
| "entering OpDelete l = Deleting"
| "entering op l = l"

text \<open>Modelled from the spec: merging the result of a succeeded task into the observed
  status (section 4.1, step 2); missing from the sources. A created VM is observed
  powered off.\<close>

fun merge :: "Operation \<Rightarrow> Resource \<Rightarrow> Resource" where
  "merge OpCreate r = r\<lparr>lifecycle := Stopped, observed_power := Off\<rparr>"
| "merge OpDelete r = r\<lparr>lifecycle := Deleted\<rparr>"
| "merge OpPowerOn r = r\<lparr>lifecycle := VMRunning, observed_power := On\<rparr>"
| "merge OpPowerOff r = r\<lparr>lifecycle := Stopped, observed_power := Off\<rparr>"
| "merge OpPowerOffGraceful r = r\<lparr>lifecycle := Stopped, observed_power := Off\<rparr>"

text \<open>Modelled from the spec: the three ways the controller takes the error of a task
  (sections 4.1 and 7): as a success, as transient, as permanent; the type is missing
  from the sources.\<close>

datatype Verdict = Success | Transient | Permanent

text \<open>Modelled from the spec: the controller's policy for an error of a task (section 7),
  missing from the sources: \<open>Unavailable\<close> and \<open>Internal\<close> are retried,
  \<open>AlreadyExists\<close> is surfaced as \<open>Internal\<close>, \<open>NotFound\<close> on Delete is a success,
  \<open>InvalidArgument\<close> and \<open>Unimplemented\<close> are permanent. For \<open>Canceled\<close> and for
  \<open>NotFound\<close> outside Delete the spec names no policy; they are taken as permanent.\<close>

fun classify :: "Operation \<Rightarrow> ErrorKind \<Rightarrow> Verdict" where
  "classify op Unavailable = Transient"
| "classify op Internal = Transient"
| "classify op AlreadyExists = Transient"
| "classify op NotFound = (if op = OpDelete then Success else Permanent)"
| "classify op InvalidArgument = Permanent"
| "classify op Unimplemented = Permanent"
| "classify op ErrCanceled = Permanent"

text \<open>Modelled from the spec: recording a condition (section 3: "a new condition of the
  same type replaces the prior entry only if status or reason changed"); missing from
  the sources.\<close>

definition set_condition :: "Condition \<Rightarrow> Condition list \<Rightarrow> Condition list" where
  "set_condition c cs =
     (if \<exists>d \<in> set cs. ctype d = ctype c \<and> cstatus d = cstatus c \<and> reason d = reason c
      then cs
      else filter (\<lambda>d. ctype d \<noteq> ctype c) cs @ [c])"

text \<open>Modelled from the spec: the condition a permanent error sets (section 4.1, step 2:
  "permanent: set Failed condition"); missing from the sources.\<close>

definition failed_condition :: "Operation \<Rightarrow> ErrorKind \<Rightarrow> Condition" where
  "failed_condition op e =
     \<lparr>ctype = ''Failed'', cstatus = CTrue, reason = ''PermanentError'', message = []\<rparr>"

text \<open>Modelled from the spec: steps 3 and 4 of a reconcile pass (section 4.1), missing
  from the sources: compute the diff; if it calls for an operation, gate it on the
  provider's capabilities, build the task key, invoke the provider and store the
  returned task reference. The third component lists the provider calls issued.\<close>

definition issue ::
  "string set \<Rightarrow> Resource \<Rightarrow> (string \<times> nat \<times> Operation, string list) Tracker \<Rightarrow>
     Resource \<times> (string \<times> nat \<times> Operation, string list) Tracker \<times>
     (Operation \<times> string \<times> string \<times> nat \<times> Operation) list" where
  "issue caps r s =
     (case diff r of
        None \<Rightarrow> (r, s, [])
      | Some op0 \<Rightarrow>
          (let op = gate caps op0; k = task_key r op in
           case serve op (vm_ref r) k s of
             (h, s') \<Rightarrow>
               (r\<lparr>active_task := Some (h, op), lifecycle := entering op (lifecycle r)\<rparr>,
                s', [(op, vm_ref r, k)])))"

text \<open>Modelled from the spec: one reconcile pass (section 4.1, steps 2 to 4), missing
  from the sources. With an active task the pass polls it: a succeeded task is merged
  and the pass goes on to the diff; a transient failure clears the task reference and
  falls through to the diff; a permanent failure sets the Failed condition; a pending
  or running task ends the pass with no other action. A handle the tracker no longer
  holds, and a canceled task, clear the task reference and end the pass. The store, its
  version conflicts and the requeue delays are left out.\<close>

definition Reconcile ::
  "string set \<Rightarrow> Resource \<Rightarrow> (string \<times> nat \<times> Operation, string list) Tracker \<Rightarrow>
     Resource \<times> (string \<times> nat \<times> Operation, string list) Tracker \<times>
     (Operation \<times> string \<times> string \<times> nat \<times> Operation) list" where
  "Reconcile caps r s =
     (case active_task r of
        None \<Rightarrow> issue caps r s
      | Some (h, op) \<Rightarrow>
          (case Poll h s of
             None \<Rightarrow> (r\<lparr>active_task := None\<rparr>, s, [])
           | Some Pending \<Rightarrow> (r, s, [])
           | Some Running \<Rightarrow> (r, s, [])
           | Some Canceled \<Rightarrow> (r\<lparr>active_task := None\<rparr>, s, [])
           | Some (Succeeded res) \<Rightarrow> issue caps (merge op (r\<lparr>active_task := None\<rparr>)) s
           | Some (Failed e) \<Rightarrow>
               (case classify op e of
                  Success \<Rightarrow> issue caps (merge op (r\<lparr>active_task := None\<rparr>)) s
                | Transient \<Rightarrow> issue caps (r\<lparr>active_task := None\<rparr>) s
                | Permanent \<Rightarrow>
                    (r\<lparr>active_task := None, lifecycle := VMFailed,
                       conditions := set_condition (failed_condition op e) (conditions r)\<rparr>,
                     s, []))))"

section \<open>Example inputs\<close>

text \<open>
  A start with no flags in an empty environment, where the listen succeeds and a signal
  arrives; a start with one positional argument and \<open>LOG_FORMAT=json\<close>; a start
  where every listen fails; and a call with \<open>--version\<close> followed by a flag the
  program does not define.
\<close>

definition plain_start :: World where
  "plain_start =
     \<lparr>Args = [''provider-libvirt''], Environ = Map.empty, version_String = ''v0.3.0'',
      ParseInt = (\<lambda>s. None), Listen_err = (\<lambda>p. None), interrupted = True\<rparr>"

definition json_start :: World where
  "json_start =
     \<lparr>Args = [''provider-libvirt'', ''serve''], Environ = [''LOG_FORMAT'' \<mapsto> ''json''],
      version_String = ''v0.3.0'', ParseInt = (\<lambda>s. None), Listen_err = (\<lambda>p. None),
      interrupted = False\<rparr>"

definition port_taken :: World where
  "port_taken =
     \<lparr>Args = [''provider-libvirt''], Environ = Map.empty, version_String = ''v0.3.0'',
      ParseInt = (\<lambda>s. None), Listen_err = (\<lambda>p. Some ''address already in use''),
      interrupted = True\<rparr>"

definition version_call :: World where
  "version_call =
     \<lparr>Args = [''provider-libvirt'', ''--version'', ''--bogus''], Environ = Map.empty,
      version_String = ''v0.3.0'', ParseInt = (\<lambda>s. None), Listen_err = (\<lambda>p. None),
      interrupted = False\<rparr>"

text \<open>An empty provider server, and a running VM that is to be shut down gracefully.\<close>

definition empty_server :: "(string \<times> nat \<times> Operation, string list) Tracker" where
  "empty_server = \<lparr>tasks = [], backend = [], invocations = 0\<rparr>"

definition running_vm :: Resource where
  "running_vm =
     \<lparr>uid = ''u1'', generation = 3, vm_ref = ''vm1'', desired_power = OffGraceful,
      deletion_requested = False, lifecycle = VMRunning, observed_power = On,
      conditions = [], active_task = None\<rparr>"

text \<open>The same VM's resource once its deletion is requested, the VM itself being gone.\<close>

definition doomed_vm :: Resource where
  "doomed_vm = running_vm\<lparr>deletion_requested := True\<rparr>"

section \<open>Properties of the provider process\<close>

subsection \<open>The shape of the trace\<close>

lemma main_cases:
  "main w = ([Stdout (''virtrigaud-provider-libvirt '' @ version_String w @ [CHR 0x0A])], Exit 0) \<or>
   main w = ([], Panic) \<or> main w = ([], Exit 0) \<or> main w = ([], Exit 2) \<or>
   (\<exists>p err. main w = (wiring p @
        [Log (newHandler (Environ w)) LevelError ''Failed to listen'' [(''error'', AError err)]],
        Exit 1)) \<or>
   (\<exists>fl. main w = (wiring (port fl) @ startup w (newHandler (Environ w)) fl, Blocked)) \<or>
   (\<exists>fl. main w =
        (wiring (port fl) @ startup w (newHandler (Environ w)) fl @ shutdown (newHandler (Environ w)),
         Returned))"
proof (cases "1 < length (Args w) \<and> Args w ! 1 = ''--version''")
  case True
  then have "main w =
      ([Stdout (''virtrigaud-provider-libvirt '' @ version_String w @ [CHR 0x0A])], Exit 0)"
    by (simp add: main_def)
  then show ?thesis by blast
next
  case nv: False
  show ?thesis
  proof (cases "Args w")
    case Nil
    then have "main w = ([], Panic)" by (simp add: main_def)
    then show ?thesis by blast
  next
    case (Cons a args)
    show ?thesis
    proof (cases "flag_Parse (ParseInt w) args \<lparr>port = 9443, healthPort = 8080\<rparr>")
      case (Inl e)
      with nv Cons have "main w = ([], Exit 0) \<or> main w = ([], Exit 2)"
        by (cases e) (auto simp: main_def)
      then show ?thesis by blast
    next
      case (Inr fl)
      show ?thesis
      proof (cases "Listen_err w (port fl)")
        case (Some err)
        with nv Cons Inr have "main w = (wiring (port fl) @
            [Log (newHandler (Environ w)) LevelError ''Failed to listen'' [(''error'', AError err)]],
            Exit 1)"
          by (auto simp: main_def Let_def)
        then show ?thesis by blast
      next
        case None
        show ?thesis
        proof (cases "interrupted w")
          case True
          with nv Cons Inr None have "main w =
              (wiring (port fl) @ startup w (newHandler (Environ w)) fl @
                 shutdown (newHandler (Environ w)), Returned)"
            by (auto simp: main_def Let_def)
          then show ?thesis by blast
        next
          case False
          with nv Cons Inr None have "main w =
              (wiring (port fl) @ startup w (newHandler (Environ w)) fl, Blocked)"
            by (auto simp: main_def Let_def)
          then show ?thesis by blast
        qed
      qed
    qed
  qed
qed

lemma main_trace_cases:
  "fst (main w) = [] \<or>
   (\<exists>s. fst (main w) = [Stdout s]) \<or>
   (\<exists>p err. fst (main w) = wiring p @
        [Log (newHandler (Environ w)) LevelError ''Failed to listen'' [(''error'', AError err)]]) \<or>
   (\<exists>fl. fst (main w) = wiring (port fl) @ startup w (newHandler (Environ w)) fl) \<or>
   (\<exists>fl. fst (main w) =
        wiring (port fl) @ startup w (newHandler (Environ w)) fl @ shutdown (newHandler (Environ w)))"
  using main_cases [of w]
proof (elim disjE exE)
  fix p err
  assume "main w = (wiring p @
      [Log (newHandler (Environ w)) LevelError ''Failed to listen'' [(''error'', AError err)]],
      Exit 1)"
  then have "fst (main w) = wiring p @
      [Log (newHandler (Environ w)) LevelError ''Failed to listen'' [(''error'', AError err)]]"
    by simp
  then show ?thesis by blast
next
  fix fl
  assume "main w = (wiring (port fl) @ startup w (newHandler (Environ w)) fl, Blocked)"
  then have "fst (main w) = wiring (port fl) @ startup w (newHandler (Environ w)) fl" by simp
  then show ?thesis by blast
next
  fix fl
  assume "main w =
      (wiring (port fl) @ startup w (newHandler (Environ w)) fl @ shutdown (newHandler (Environ w)),
       Returned)"
  then have "fst (main w) =
      wiring (port fl) @ startup w (newHandler (Environ w)) fl @ shutdown (newHandler (Environ w))"
    by simp
  then show ?thesis by blast
qed simp_all

lemma flag_Parse_no_flags:
  assumes "\<forall>a\<in>set rest. a = [] \<or> hd a \<noteq> CHR ''-''"
  shows "flag_Parse atoi rest fl = Inr fl"
proof (cases rest)
  case Nil
  then show ?thesis by simp
next
  case (Cons a args)
  with assms have "length a < 2 \<or> hd a \<noteq> CHR ''-''" by (cases a) auto
  with Cons show ?thesis by simp
qed

lemma main_no_flags:
  assumes args: "Args w = prog # rest" and nf: "\<forall>a\<in>set rest. a = [] \<or> hd a \<noteq> CHR ''-''"
  shows "main w =
     (case Listen_err w 9443 of
        Some err \<Rightarrow>
          (wiring 9443 @
             [Log (newHandler (Environ w)) LevelError ''Failed to listen'' [(''error'', AError err)]],
           Exit 1)
      | None \<Rightarrow>
          if interrupted w
          then (wiring 9443 @ startup w (newHandler (Environ w)) \<lparr>port = 9443, healthPort = 8080\<rparr> @
                  shutdown (newHandler (Environ w)), Returned)
          else (wiring 9443 @ startup w (newHandler (Environ w)) \<lparr>port = 9443, healthPort = 8080\<rparr>,
                Blocked))"
proof -
  have "rest ! 0 \<noteq> ''--version''" if "rest \<noteq> []"
  proof -
    from that nf have "hd rest = [] \<or> hd (hd rest) \<noteq> CHR ''-''" by (cases rest) auto
    then have "hd rest \<noteq> ''--version''" by auto
    with that show ?thesis by (simp add: hd_conv_nth)
  qed
  then have nv: "\<not> (1 < length (Args w) \<and> Args w ! 1 = ''--version'')"
    unfolding args by auto
  have p: "flag_Parse (ParseInt w) rest \<lparr>port = 9443, healthPort = 8080\<rparr> =
      Inr \<lparr>port = 9443, healthPort = 8080\<rparr>"
    using nf by (rule flag_Parse_no_flags)
  from nv show ?thesis
    by (simp add: main_def args p Let_def split: option.splits)
qed

lemma main_listen_failed:
  assumes "net_Listen p \<in> set (fst (main w))" and "Listen_err w p = Some err"
  shows "main w =
     (wiring p @ [Log (newHandler (Environ w)) LevelError ''Failed to listen'' [(''error'', AError err)]],
      Exit 1)"
  using assms
  by (auto simp: main_def Let_def startup_def shutdown_def wiring_def
      split: list.splits sum.splits ParseError.splits option.splits if_splits)

lemma main_started:
  assumes "snd (main w) = Returned \<or> snd (main w) = Blocked"
  shows "\<exists>fl rest. fst (main w) = wiring (port fl) @ startup w (newHandler (Environ w)) fl @ rest"
  using main_cases [of w]
proof (elim disjE exE)
  fix fl
  assume "main w = (wiring (port fl) @ startup w (newHandler (Environ w)) fl, Blocked)"
  then have "fst (main w) = wiring (port fl) @ startup w (newHandler (Environ w)) fl @ []" by simp
  then show ?thesis by blast
next
  fix fl
  assume "main w =
      (wiring (port fl) @ startup w (newHandler (Environ w)) fl @ shutdown (newHandler (Environ w)),
       Returned)"
  then have "fst (main w) =
      wiring (port fl) @ startup w (newHandler (Environ w)) fl @ shutdown (newHandler (Environ w))"
    by simp
  then show ?thesis by blast
qed (use assms in auto)

lemma error_enabled: "Enabled (newHandler env) LevelError"
  by (simp add: Enabled_def newHandler_def getLogLevel_def Let_def)

lemma newHandler_kind:
  "kind (newHandler env) = (if env ''LOG_FORMAT'' = Some ''json'' then JSONHandler else TextHandler)"
  by (simp add: newHandler_def Getenv_def Let_def split: option.splits)

lemma log_handler:
  assumes "Log h l m a \<in> set (fst (main w))"
  shows "h = newHandler (Environ w)"
  using main_trace_cases [of w] assms
  by (auto simp: wiring_def startup_def shutdown_def)

subsection \<open>The health status over the trace\<close>

lemma health_step_other: "\<not> status_change e \<Longrightarrow> health_step m e = m"
  by (cases e) simp_all

lemma health_after_unchanged:
  "\<forall>e\<in>set es. \<not> status_change e \<Longrightarrow> health_after m es = m"
  unfolding health_after_def
  by (induction es arbitrary: m) (simp_all add: health_step_other)

lemma health_after_append:
  "health_after m (xs @ ys) = health_after (health_after m xs) ys"
  by (simp add: health_after_def)

lemma health_after_wiring: "health_after m (wiring p) [] = Some SERVING"
  by (simp add: health_after_def wiring_def)

lemma startup_quiet: "\<forall>e\<in>set (startup w h fl). \<not> status_change e"
  by (simp add: startup_def)

lemma shutdown_quiet: "\<forall>e\<in>set (shutdown h). \<not> status_change e"
  by (simp add: shutdown_def)

lemma prefix_wiring:
  assumes "prefix q (wiring p)" and "net_Listen n \<in> set q"
  shows "q = wiring p"
proof -
  let ?pre = "[signal_NotifyContext, grpc_NewServer, libvirt_New, libvirt_NewServer,
      RegisterProviderServer, health_NewServer, RegisterHealthServer,
      SetServingStatus [] SERVING]"
  have w: "wiring p = ?pre @ [net_Listen p]" by (simp add: wiring_def)
  from assms(1) have "q = wiring p \<or> prefix q ?pre"
    unfolding w prefix_snoc by blast
  moreover have "\<not> prefix q ?pre"
  proof
    assume "prefix q ?pre"
    then have "set q \<subseteq> set ?pre" by (rule set_mono_prefix)
    with assms(2) show False by auto
  qed
  ultimately show ?thesis by blast
qed

lemma serving_after_listen:
  assumes "prefix q (wiring p @ rest)" and "net_Listen n \<in> set q"
    and quiet: "\<forall>e\<in>set rest. \<not> status_change e"
  shows "health_after m q [] = Some SERVING"
proof -
  from assms(1) consider "prefix q (wiring p)" | r where "q = wiring p @ r" "prefix r rest"
    unfolding prefix_append by blast
  then show ?thesis
  proof cases
    case 1
    from 1 assms(2) have "q = wiring p" by (rule prefix_wiring)
    then show ?thesis by (simp add: health_after_wiring)
  next
    case 2
    then have "set r \<subseteq> set rest" by (simp add: set_mono_prefix)
    with quiet have "\<forall>e\<in>set r. \<not> status_change e" by blast
    then show ?thesis
      unfolding 2(1) health_after_append by (simp add: health_after_unchanged health_after_wiring)
  qed
qed

lemma main_shape:
  "(\<forall>n. net_Listen n \<notin> set (fst (main w))) \<or>
   (\<exists>p rest. fst (main w) = wiring p @ rest \<and> (\<forall>e\<in>set rest. \<not> status_change e))"
proof -
  have q1: "\<forall>e\<in>set [Log h LevelError m a]. \<not> status_change e" for h m a by simp
  have q2: "\<forall>e\<in>set (startup w h fl @ shutdown h). \<not> status_change e" for h fl
    using startup_quiet shutdown_quiet by auto
  from main_trace_cases [of w] show ?thesis
  proof (elim disjE exE)
    assume "fst (main w) = []"
    then show ?thesis by simp
  next
    fix s assume "fst (main w) = [Stdout s]"
    then show ?thesis by simp
  next
    fix p err assume "fst (main w) = wiring p @
        [Log (newHandler (Environ w)) LevelError ''Failed to listen'' [(''error'', AError err)]]"
    with q1 show ?thesis by blast
  next
    fix fl assume "fst (main w) = wiring (port fl) @ startup w (newHandler (Environ w)) fl"
    with startup_quiet show ?thesis by blast
  next
    fix fl assume "fst (main w) =
        wiring (port fl) @ startup w (newHandler (Environ w)) fl @ shutdown (newHandler (Environ w))"
    with q2 show ?thesis by blast
  qed
qed

lemma serving_from_listen:
  assumes "prefix q (fst (main w))" and "net_Listen n \<in> set q"
  shows "health_after m q [] = Some SERVING"
proof -
  from assms have "net_Listen n \<in> set (fst (main w))"
    using set_mono_prefix by blast
  with main_shape [of w] obtain p rest where
    "fst (main w) = wiring p @ rest" "\<forall>e\<in>set rest. \<not> status_change e"
    by blast
  with assms show ?thesis using serving_after_listen by metis
qed

lemma only_serving_set:
  assumes "SetServingStatus s st \<in> set (fst (main w))"
  shows "s = [] \<and> st = SERVING"
  using main_trace_cases [of w] assms
  by (auto simp: wiring_def startup_def shutdown_def)

section \<open>Properties of the task tracker, the provider server and the controller\<close>

lemma fresh_handle_gt: "x \<in> set ts \<Longrightarrow> handle x < fresh_handle ts"
  unfolding fresh_handle_def by (induction ts) auto

lemma find_handle_fresh: "find (\<lambda>x. handle x = fresh_handle ts) ts = None"
proof -
  have "handle x \<noteq> fresh_handle ts" if "x \<in> set ts" for x
    using fresh_handle_gt [OF that] by simp
  then show ?thesis by (simp add: find_None_iff)
qed

lemma find_append:
  "find P (xs @ ys) = (case find P xs of None \<Rightarrow> find P ys | Some x \<Rightarrow> Some x)"
  by (induction xs) simp_all

lemma find_key_map:
  "(\<And>x. key (g x) = key x) \<Longrightarrow>
     find (\<lambda>x. key x = k) (map g xs) = map_option g (find (\<lambda>x. key x = k) xs)"
  by (induction xs) simp_all

lemma Register_hit:
  "find (\<lambda>x. key x = k) (tasks t) = Some x \<Longrightarrow> Register k g t = (handle x, t)"
  by (simp add: Register_def)

lemma Register_registers:
  assumes "Register k f t = (h, t1)"
  shows "\<exists>x. find (\<lambda>x. key x = k) (tasks t1) = Some x \<and> handle x = h"
  using assms
  by (auto simp: Register_def find_append split: option.splits prod.splits)

lemma Register_keeps:
  assumes "find (\<lambda>x. key x = k) (tasks t) = Some x"
  shows "find (\<lambda>x. key x = k) (tasks (snd (Register j f t))) = Some x"
  using assms
  by (auto simp: Register_def find_append split: option.splits prod.splits)

lemma Cancel_keeps:
  assumes "find (\<lambda>x. key x = k) (tasks t) = Some x"
  shows "\<exists>y. find (\<lambda>x. key x = k) (tasks (Cancel h t)) = Some y \<and> handle y = handle x"
  using assms by (simp add: Cancel_def find_key_map)

lemma run_keeps:
  "find (\<lambda>x. key x = k) (tasks t) = Some x \<Longrightarrow>
     \<exists>y. find (\<lambda>x. key x = k) (tasks (run cs t)) = Some y \<and> handle y = handle x"
proof (induction cs t arbitrary: x rule: run.induct)
  case (1 t)
  then show ?case by simp
next
  case (2 j f cs t)
  from Register_keeps [OF "2.prems"] "2.IH" show ?case by simp
next
  case (3 h cs t)
  from Cancel_keeps [OF "3.prems"] obtain y where
    "find (\<lambda>x. key x = k) (tasks (Cancel h t)) = Some y" "handle y = handle x" by blast
  with "3.IH" [of y] show ?case by simp
qed

lemma Register_again:
  assumes "Register k f t = (h, t1)"
  shows "Register k g (run cs t1) = (h, run cs t1)"
proof -
  from Register_registers [OF assms] obtain x where
    "find (\<lambda>x. key x = k) (tasks t1) = Some x" "handle x = h" by blast
  with run_keeps [of k t1 x cs] obtain y where
    "find (\<lambda>x. key x = k) (tasks (run cs t1)) = Some y" "handle y = h" by auto
  then show ?thesis using Register_hit by fastforce
qed

lemma Poll_after_miss:
  assumes "find (\<lambda>x. key x = k) (tasks t) = None" and "f (backend t) = (b, st)"
  shows "Poll (fst (Register k f t)) (snd (Register k f t)) = Some st"
  using assms
  by (simp add: Register_def Poll_def find_append find_handle_fresh)

lemma Create_once:
  assumes "find (\<lambda>x. key x = k) (tasks u) = None"
  shows "backend (snd (Create ref k u)) = backend u @ [ref] \<and>
         invocations (snd (Create ref k u)) = Suc (invocations u)"
  using assms by (simp add: Create_def serve_def Register_def operationFn_def)

lemma Delete_absent_poll:
  assumes "ref \<notin> set (backend t)" and "find (\<lambda>x. key x = k) (tasks t) = None"
  shows "Poll (fst (Delete ref k t)) (snd (Delete ref k t)) = Some (Succeeded ref)"
proof -
  from assms(1) have "operationFn OpDelete ref (backend t) = (backend t, Succeeded ref)"
    by (simp add: operationFn_def)
  with assms(2) show ?thesis
    unfolding Delete_def serve_def by (rule Poll_after_miss)
qed

lemma Delete_absent_backend:
  assumes "ref \<notin> set (backend t)" and "find (\<lambda>x. key x = k) (tasks t) = None"
  shows "backend (snd (Delete ref k t)) = backend t"
  using assms by (simp add: Delete_def serve_def Register_def operationFn_def)

lemma gate_not_graceful: "''guest-agent'' \<notin> caps \<Longrightarrow> gate caps op \<noteq> OpPowerOffGraceful"
  by (simp add: gate_def)

lemma issue_not_graceful:
  assumes "''guest-agent'' \<notin> caps"
  shows "\<forall>c\<in>set (snd (snd (issue caps r s))). fst c \<noteq> OpPowerOffGraceful"
  using gate_not_graceful [OF assms]
  by (auto simp: issue_def Let_def split: option.splits prod.splits)

lemma Reconcile_not_graceful:
  assumes "''guest-agent'' \<notin> caps"
  shows "\<forall>c\<in>set (snd (snd (Reconcile caps r s))). fst c \<noteq> OpPowerOffGraceful"
  using issue_not_graceful [OF assms]
  by (simp add: Reconcile_def split: option.splits prod.splits TaskState.splits Verdict.splits)

lemma Reconcile_fallback:
  assumes "''guest-agent'' \<notin> caps" and "desired_power r = OffGraceful"
    and "active_task r = None" and "observed_power r \<noteq> Off" and "\<not> deletion_requested r"
    and "lifecycle r \<noteq> VMPending" and "lifecycle r \<noteq> Deleted" and "lifecycle r \<noteq> VMFailed"
  shows "snd (snd (Reconcile caps r s)) = [(OpPowerOff, vm_ref r, task_key r OpPowerOff)]"
  using assms
  by (simp add: Reconcile_def issue_def diff_def gate_def Let_def split: prod.splits)

lemma Reconcile_delete_first:
  assumes "deletion_requested r" and "active_task r = None"
    and "lifecycle r \<noteq> Deleted" and "lifecycle r \<noteq> VMFailed"
    and "Delete (vm_ref r) (task_key r OpDelete) s = (h, s1)"
  shows "Reconcile caps r s =
     (r\<lparr>active_task := Some (h, OpDelete), lifecycle := Deleting\<rparr>, s1,
      [(OpDelete, vm_ref r, task_key r OpDelete)])"
  using assms
  by (simp add: Reconcile_def issue_def diff_def gate_def Let_def Delete_def)

lemma Reconcile_delete_second:
  assumes "Poll h s1 = Some (Succeeded res)"
  shows "Reconcile caps (r\<lparr>active_task := Some (h, OpDelete), lifecycle := Deleting\<rparr>) s1 =
     (r\<lparr>active_task := None, lifecycle := Deleted\<rparr>, s1, [])"
  using assms
  by (simp add: Reconcile_def issue_def diff_def)

section \<open>The claims\<close>

text \<open>
  C1 (as amended). When the provider starts serving, its start-up record lists the
  capability tokens core, snapshots, linked-clones, online-reconfigure and
  qemu-guest-agent: support for the guest agent is announced under the token
  \<open>qemu-guest-agent\<close>. The token \<open>guest-agent\<close> of the spec's vocabulary is not in
  the list, as the third theorem below shows.
\<close>

theorem startup_capabilities:
  assumes "snd (main w) = Returned \<or> snd (main w) = Blocked"
  shows "\<exists>h a. Log h LevelInfo ''Starting Libvirt provider server'' a \<in> set (fst (main w)) \<and>
           map_of a ''capabilities'' =
             Some (AStrings [''core'', ''snapshots'', ''linked-clones'', ''online-reconfigure'',
                             ''qemu-guest-agent''])"
proof -
  from main_started [OF assms] obtain fl rest where
    m: "fst (main w) = wiring (port fl) @ startup w (newHandler (Environ w)) fl @ rest" by blast
  let ?a = "[(''version'', AString (version_String w)),
         (''log_level'', AString (Level_String (getLogLevel (Environ w)))),
         (''log_format'', AString (Getenv (Environ w) ''LOG_FORMAT'')),
         (''port'', AInt (port fl)),
         (''health_port'', AInt (healthPort fl)),
         (''capabilities'', AStrings capabilities),
         (''supported_platforms'', AStrings supported_platforms)]"
  have "Log (newHandler (Environ w)) LevelInfo ''Starting Libvirt provider server'' ?a
      \<in> set (startup w (newHandler (Environ w)) fl)"
    by (simp add: startup_def)
  then have 1: "Log (newHandler (Environ w)) LevelInfo ''Starting Libvirt provider server'' ?a
      \<in> set (fst (main w))"
    unfolding m by simp
  have 2: "map_of ?a ''capabilities'' =
      Some (AStrings [''core'', ''snapshots'', ''linked-clones'', ''online-reconfigure'',
                      ''qemu-guest-agent''])"
    by (simp add: capabilities_def)
  from 1 2 have "Log (newHandler (Environ w)) LevelInfo ''Starting Libvirt provider server'' ?a
      \<in> set (fst (main w)) \<and>
    map_of ?a ''capabilities'' =
      Some (AStrings [''core'', ''snapshots'', ''linked-clones'', ''online-reconfigure'',
                      ''qemu-guest-agent''])"
    by (rule conjI)
  then show ?thesis by (intro exI)
qed

theorem startup_capabilities_witness:
  "snd (main plain_start) = Returned \<and>
   (\<exists>h a. Log h LevelInfo ''Starting Libvirt provider server'' a \<in> set (fst (main plain_start)) \<and>
      map_of a ''capabilities'' =
        Some (AStrings [''core'', ''snapshots'', ''linked-clones'', ''online-reconfigure'',
                        ''qemu-guest-agent'']))"
proof -
  have r: "snd (main plain_start) = Returned"
    by (simp add: main_def plain_start_def Let_def)
  then have "snd (main plain_start) = Returned \<or> snd (main plain_start) = Blocked"
    by (rule disjI1)
  then have "\<exists>h a. Log h LevelInfo ''Starting Libvirt provider server'' a
        \<in> set (fst (main plain_start)) \<and>
      map_of a ''capabilities'' =
        Some (AStrings [''core'', ''snapshots'', ''linked-clones'', ''online-reconfigure'',
                        ''qemu-guest-agent''])"
    by (rule startup_capabilities)
  with r show ?thesis by (rule conjI)
qed

theorem guest_agent_token_absent: "''guest-agent'' \<notin> set capabilities"
  by (simp add: capabilities_def)

text \<open>
  C2. A reconcile pass for a provider whose capability set lacks \<open>guest-agent\<close> never
  issues a graceful power-off; and for a VM whose desired power state is OffGraceful
  (no task in flight, not yet observed off, provisioned, not being deleted, not failed)
  the pass issues exactly one provider call, the hard power-off, under the task key of
  that operation.
\<close>

theorem graceful_falls_back_to_hard:
  assumes "''guest-agent'' \<notin> caps"
  shows "(\<forall>c\<in>set (snd (snd (Reconcile caps r s))). fst c \<noteq> OpPowerOffGraceful) \<and>
         (desired_power r = OffGraceful \<and> active_task r = None \<and> observed_power r \<noteq> Off \<and>
          \<not> deletion_requested r \<and> lifecycle r \<noteq> VMPending \<and> lifecycle r \<noteq> Deleted \<and>
          lifecycle r \<noteq> VMFailed \<longrightarrow>
            snd (snd (Reconcile caps r s)) = [(OpPowerOff, vm_ref r, task_key r OpPowerOff)])"
  using Reconcile_not_graceful [OF assms] Reconcile_fallback [OF assms] by blast

theorem graceful_falls_back_to_hard_witness:
  "''guest-agent'' \<notin> set capabilities \<and> desired_power running_vm = OffGraceful \<and>
   snd (snd (Reconcile (set capabilities) running_vm empty_server)) =
     [(OpPowerOff, ''vm1'', (''u1'', 3, OpPowerOff))]"
proof -
  have c: "''guest-agent'' \<notin> set capabilities" by (simp add: capabilities_def)
  have h: "desired_power running_vm = OffGraceful" "active_task running_vm = None"
    "observed_power running_vm \<noteq> Off" "\<not> deletion_requested running_vm"
    "lifecycle running_vm \<noteq> VMPending" "lifecycle running_vm \<noteq> Deleted"
    "lifecycle running_vm \<noteq> VMFailed"
    by (simp_all add: running_vm_def)
  have v: "vm_ref running_vm = ''vm1''" "task_key running_vm OpPowerOff = (''u1'', 3, OpPowerOff)"
    by (simp_all add: running_vm_def task_key_def)
  from graceful_falls_back_to_hard [OF c, of running_vm empty_server] h
  have "snd (snd (Reconcile (set capabilities) running_vm empty_server)) =
      [(OpPowerOff, vm_ref running_vm, task_key running_vm OpPowerOff)]"
    by blast
  with c h(1) show ?thesis unfolding v by blast
qed




text \<open>
  C4. Once \<open>Register k f\<close> has returned a handle, \<open>Register k g\<close> after any further
  Register and Cancel calls returns the same handle and leaves the tracker, its backend
  and its count of invocations as they are, whatever \<open>g\<close> is; so does a Create with
  that key. Two Creates with one fresh key return one handle and add exactly one VM to
  the backend, with one invocation of an operation function.
\<close>

theorem register_is_idempotent:
  "(Register k f t = (h, t1) \<longrightarrow> Register k g (run cs t1) = (h, run cs t1)) \<and>
   (Create ref k u = (h', u1) \<longrightarrow> Create ref' k (run ds u1) = (h', run ds u1)) \<and>
   (find (\<lambda>x. key x = k) (tasks u) = None \<and> Create ref k u = (h', u1) \<longrightarrow>
      Create ref k u1 = (h', u1) \<and> backend u1 = backend u @ [ref] \<and>
      invocations u1 = Suc (invocations u))"
proof (intro conjI impI)
  assume "Register k f t = (h, t1)"
  then show "Register k g (run cs t1) = (h, run cs t1)" by (rule Register_again)
next
  assume "Create ref k u = (h', u1)"
  then show "Create ref' k (run ds u1) = (h', run ds u1)"
    unfolding Create_def serve_def by (rule Register_again)
next
  assume a: "find (\<lambda>x. key x = k) (tasks u) = None \<and> Create ref k u = (h', u1)"
  then have "Register k (operationFn OpCreate ref) u = (h', u1)"
    by (simp add: Create_def serve_def)
  from Register_again [OF this, of "operationFn OpCreate ref" "[]"]
  show "Create ref k u1 = (h', u1)" by (simp add: Create_def serve_def)
  from a Create_once [of k u ref] show "backend u1 = backend u @ [ref]" by simp
  from a Create_once [of k u ref] show "invocations u1 = Suc (invocations u)" by simp
qed

theorem register_is_idempotent_witness:
  "Create ''vm1'' (''u1'', 3, OpCreate) empty_server =
     (1, \<lparr>tasks = [\<lparr>key = (''u1'', 3, OpCreate), handle = 1, state = Succeeded ''vm1'',
                    cancel_requested = False\<rparr>],
          backend = [''vm1''], invocations = 1\<rparr>) \<and>
   Create ''vm1'' (''u1'', 3, OpCreate)
     (snd (Create ''vm1'' (''u1'', 3, OpCreate) empty_server)) =
     Create ''vm1'' (''u1'', 3, OpCreate) empty_server \<and>
   Register (''u1'', 3, OpCreate) (operationFn OpDelete ''vm1'')
     (run [DoCancel 1, DoRegister (''u2'', 0, OpCreate) (operationFn OpCreate ''vm2'')]
        (snd (Create ''vm1'' (''u1'', 3, OpCreate) empty_server))) =
     (1, run [DoCancel 1, DoRegister (''u2'', 0, OpCreate) (operationFn OpCreate ''vm2'')]
        (snd (Create ''vm1'' (''u1'', 3, OpCreate) empty_server)))"
proof -
  let ?k = "(''u1'', 3::nat, OpCreate)"
  let ?u1 = "\<lparr>tasks = [\<lparr>key = ?k, handle = 1, state = Succeeded ''vm1'',
                    cancel_requested = False\<rparr>],
          backend = [''vm1''], invocations = 1\<rparr>"
  let ?cs = "[DoCancel 1, DoRegister (''u2'', 0::nat, OpCreate) (operationFn OpCreate ''vm2'')]"
  have c: "Create ''vm1'' ?k empty_server = (1, ?u1)"
    by (simp add: Create_def serve_def Register_def operationFn_def empty_server_def
        fresh_handle_def)
  then have r: "Register ?k (operationFn OpCreate ''vm1'') empty_server = (1, ?u1)"
    by (simp add: Create_def serve_def)
  have f: "find (\<lambda>x. key x = ?k) (tasks empty_server) = None"
    by (simp add: empty_server_def)
  note th = register_is_idempotent
    [of ?k "operationFn OpCreate ''vm1''" empty_server 1 ?u1 "operationFn OpDelete ''vm1''"
      ?cs "''vm1''" empty_server 1 ?u1 "''vm1''" "[]"]
  from th r have one: "Register ?k (operationFn OpDelete ''vm1'') (run ?cs ?u1) = (1, run ?cs ?u1)"
    by blast
  from th f c have two: "Create ''vm1'' ?k ?u1 = (1, ?u1)"
    by blast
  show ?thesis
    unfolding c snd_conv using one two by blast
qed

text \<open>
  C5. Let the deletion of a resource be requested (no task in flight, the resource
  neither deleted nor failed), let its VM be absent from the backend, and let the key
  of its Delete not be registered yet. Then Delete returns a task that is Succeeded
  when polled; the first reconcile pass issues that Delete and enters Deleting, the
  second ends in Deleted with no task reference, no further call, and the conditions
  of the resource unchanged, so that no error condition is set.
\<close>

theorem delete_of_absent_vm_succeeds:
  assumes "vm_ref r \<notin> set (backend s)"
    and "find (\<lambda>x. key x = task_key r OpDelete) (tasks s) = None"
    and "deletion_requested r" and "active_task r = None"
    and "lifecycle r \<noteq> Deleted" and "lifecycle r \<noteq> VMFailed"
  shows "\<exists>h s1 r1 r2.
           Delete (vm_ref r) (task_key r OpDelete) s = (h, s1) \<and>
           Poll h s1 = Some (Succeeded (vm_ref r)) \<and> backend s1 = backend s \<and>
           Reconcile caps r s = (r1, s1, [(OpDelete, vm_ref r, task_key r OpDelete)]) \<and>
           lifecycle r1 = Deleting \<and>
           Reconcile caps r1 s1 = (r2, s1, []) \<and>
           lifecycle r2 = Deleted \<and> active_task r2 = None \<and> conditions r2 = conditions r"
proof -
  obtain h s1 where d: "Delete (vm_ref r) (task_key r OpDelete) s = (h, s1)"
    by (cases "Delete (vm_ref r) (task_key r OpDelete) s")
  from Delete_absent_poll [OF assms(1,2)] d
  have p: "Poll h s1 = Some (Succeeded (vm_ref r))" by simp
  from Delete_absent_backend [OF assms(1,2)] d have b: "backend s1 = backend s" by simp
  let ?r1 = "r\<lparr>active_task := Some (h, OpDelete), lifecycle := Deleting\<rparr>"
  let ?r2 = "r\<lparr>active_task := None, lifecycle := Deleted\<rparr>"
  from assms(3-6) d have one:
    "Reconcile caps r s = (?r1, s1, [(OpDelete, vm_ref r, task_key r OpDelete)])"
    by (rule Reconcile_delete_first)
  from p have two: "Reconcile caps ?r1 s1 = (?r2, s1, [])"
    by (rule Reconcile_delete_second)
  have "lifecycle ?r1 = Deleting" "lifecycle ?r2 = Deleted" "active_task ?r2 = None"
    "conditions ?r2 = conditions r" by simp_all
  with d p b one two show ?thesis by blast
qed

theorem delete_of_absent_vm_succeeds_witness:
  "vm_ref doomed_vm \<notin> set (backend empty_server) \<and> deletion_requested doomed_vm \<and>
   (\<exists>h s1 r1 r2.
      Delete ''vm1'' (''u1'', 3, OpDelete) empty_server = (h, s1) \<and>
      Poll h s1 = Some (Succeeded ''vm1'') \<and> backend s1 = [] \<and>
      Reconcile {} doomed_vm empty_server = (r1, s1, [(OpDelete, ''vm1'', (''u1'', 3, OpDelete))]) \<and>
      lifecycle r1 = Deleting \<and>
      Reconcile {} r1 s1 = (r2, s1, []) \<and>
      lifecycle r2 = Deleted \<and> active_task r2 = None \<and> conditions r2 = [])"
proof -
  have a: "vm_ref doomed_vm \<notin> set (backend empty_server)"
    "find (\<lambda>x. key x = task_key doomed_vm OpDelete) (tasks empty_server) = None"
    "deletion_requested doomed_vm" "active_task doomed_vm = None"
    "lifecycle doomed_vm \<noteq> Deleted" "lifecycle doomed_vm \<noteq> VMFailed"
    by (simp_all add: doomed_vm_def running_vm_def empty_server_def)
  have v: "vm_ref doomed_vm = ''vm1''" "task_key doomed_vm OpDelete = (''u1'', 3, OpDelete)"
    "backend empty_server = []" "conditions doomed_vm = []"
    by (simp_all add: doomed_vm_def running_vm_def empty_server_def task_key_def)
  from delete_of_absent_vm_succeeds [OF a, of "{}"] a(1,3) show ?thesis
    unfolding v by blast
qed

text \<open>
  C6. \<open>getLogLevel\<close> returns LevelDebug exactly when \<open>LOG_LEVEL\<close> is set to
  \<open>debug\<close>, LevelWarn exactly when it is \<open>warn\<close>, LevelError exactly when it is
  \<open>error\<close>, and LevelInfo in every other case; among them the unset variable, the
  empty value and the value \<open>info\<close>.
\<close>

theorem getLogLevel_exact:
  "(getLogLevel env = LevelDebug \<longleftrightarrow> env ''LOG_LEVEL'' = Some ''debug'') \<and>
   (getLogLevel env = LevelWarn \<longleftrightarrow> env ''LOG_LEVEL'' = Some ''warn'') \<and>
   (getLogLevel env = LevelError \<longleftrightarrow> env ''LOG_LEVEL'' = Some ''error'') \<and>
   (getLogLevel env = LevelInfo \<longleftrightarrow>
      env ''LOG_LEVEL'' \<noteq> Some ''debug'' \<and> env ''LOG_LEVEL'' \<noteq> Some ''warn'' \<and>
      env ''LOG_LEVEL'' \<noteq> Some ''error'') \<and>
   getLogLevel (env(''LOG_LEVEL'' := None)) = LevelInfo \<and>
   getLogLevel (env(''LOG_LEVEL'' \<mapsto> [])) = LevelInfo \<and>
   getLogLevel (env(''LOG_LEVEL'' \<mapsto> ''info'')) = LevelInfo"
  by (cases "env ''LOG_LEVEL''") (simp_all add: getLogLevel_def Getenv_def Let_def)

theorem getLogLevel_exact_witness:
  "getLogLevel [''LOG_LEVEL'' \<mapsto> ''debug''] = LevelDebug \<and>
   getLogLevel [''LOG_LEVEL'' \<mapsto> ''DEBUG''] = LevelInfo \<and>
   getLogLevel [''LOG_FORMAT'' \<mapsto> ''json''] = LevelInfo"
  using getLogLevel_exact [of "[''LOG_LEVEL'' \<mapsto> ''debug'']"]
    getLogLevel_exact [of "[''LOG_LEVEL'' \<mapsto> ''DEBUG'']"]
    getLogLevel_exact [of "[''LOG_FORMAT'' \<mapsto> ''json'']"]
  by simp

text \<open>
  C7. When no command-line argument starts with a minus sign, so that no flag is
  given, the program listens on port 9443 and on no other, and an HTTP health server
  it creates has port 8080 (it creates one whenever the listen succeeds). Every log
  record of a run goes through one handler, which is the JSON handler exactly when
  \<open>LOG_FORMAT\<close> is set to \<open>json\<close> and the text handler otherwise.
\<close>

theorem default_ports_and_handler:
  assumes "Args w = prog # rest" and "\<forall>a\<in>set rest. a = [] \<or> hd a \<noteq> CHR ''-''"
  shows "(\<forall>n. net_Listen n \<in> set (fst (main w)) \<longleftrightarrow> n = 9443) \<and>
         (\<forall>n. http_Server n \<in> set (fst (main w)) \<longleftrightarrow> n = 8080 \<and> Listen_err w 9443 = None) \<and>
         (\<forall>h l m a. Log h l m a \<in> set (fst (main w)) \<longrightarrow> h = newHandler (Environ w)) \<and>
         (kind (newHandler (Environ w)) = JSONHandler \<longleftrightarrow> Environ w ''LOG_FORMAT'' = Some ''json'') \<and>
         (kind (newHandler (Environ w)) = TextHandler \<longleftrightarrow> Environ w ''LOG_FORMAT'' \<noteq> Some ''json'')"
proof (intro conjI allI impI)
  fix n show "net_Listen n \<in> set (fst (main w)) \<longleftrightarrow> n = 9443"
    unfolding main_no_flags [OF assms]
    by (auto simp: wiring_def startup_def shutdown_def split: option.splits)
next
  fix n show "http_Server n \<in> set (fst (main w)) \<longleftrightarrow> n = 8080 \<and> Listen_err w 9443 = None"
    unfolding main_no_flags [OF assms]
    by (auto simp: wiring_def startup_def shutdown_def split: option.splits)
next
  fix h l m a assume "Log h l m a \<in> set (fst (main w))"
  then show "h = newHandler (Environ w)" by (rule log_handler)
next
  show "kind (newHandler (Environ w)) = JSONHandler \<longleftrightarrow> Environ w ''LOG_FORMAT'' = Some ''json''"
    by (simp add: newHandler_kind)
next
  show "kind (newHandler (Environ w)) = TextHandler \<longleftrightarrow> Environ w ''LOG_FORMAT'' \<noteq> Some ''json''"
    by (simp add: newHandler_kind)
qed

theorem default_ports_and_handler_witness:
  "Args json_start = ''provider-libvirt'' # [''serve''] \<and>
   net_Listen 9443 \<in> set (fst (main json_start)) \<and>
   http_Server 8080 \<in> set (fst (main json_start)) \<and>
   kind (newHandler (Environ json_start)) = JSONHandler"
proof -
  have a: "Args json_start = ''provider-libvirt'' # [''serve'']"
    by (simp add: json_start_def)
  have b: "\<forall>a\<in>set [''serve'']. a = [] \<or> hd a \<noteq> CHR ''-''" by simp
  have l: "Listen_err json_start 9443 = None"
    "Environ json_start ''LOG_FORMAT'' = Some ''json''"
    by (simp_all add: json_start_def)
  note th = default_ports_and_handler [OF a b]
  from th have 1: "net_Listen 9443 \<in> set (fst (main json_start))" by blast
  from th l(1) have 2: "http_Server 8080 \<in> set (fst (main json_start))" by blast
  from th l(2) have 3: "kind (newHandler (Environ json_start)) = JSONHandler" by blast
  from a 1 2 3 show ?thesis by (intro conjI)
qed

text \<open>
  C8. If the first command-line argument is \<open>--version\<close>, the program prints
  \<open>virtrigaud-provider-libvirt\<close>, a space, the version string and a newline, and exits
  with status 0. Nothing else happens: the trace holds no other event, and the
  arguments after \<open>--version\<close>, the environment and the outcome of a listen play no
  part.
\<close>

theorem version_flag_exits_first:
  assumes "1 < length (Args w)" and "Args w ! 1 = ''--version''"
  shows "main w =
     ([Stdout (''virtrigaud-provider-libvirt '' @ version_String w @ [CHR 0x0A])], Exit 0)"
  using assms by (simp add: main_def)

theorem version_flag_exits_first_witness:
  "1 < length (Args version_call) \<and> Args version_call ! 1 = ''--version'' \<and>
   flag_Parse (ParseInt version_call) (tl (Args version_call)) \<lparr>port = 9443, healthPort = 8080\<rparr> =
     Inl ErrFlag \<and>
   main version_call = ([Stdout (''virtrigaud-provider-libvirt v0.3.0'' @ [CHR 0x0A])], Exit 0)"
proof -
  have a: "1 < length (Args version_call)" "Args version_call ! 1 = ''--version''"
    by (simp_all add: version_call_def)
  have p: "flag_Parse (ParseInt version_call) (tl (Args version_call))
      \<lparr>port = 9443, healthPort = 8080\<rparr> = Inl ErrFlag"
    by (simp add: version_call_def split_eq_def)
  have v: "version_String version_call = ''v0.3.0''" by (simp add: version_call_def)
  from version_flag_exits_first [OF a] a p v show ?thesis by simp
qed

text \<open>
  C9. The only status the program ever sets on the health service is SERVING, for the
  empty service name. Whatever table the health service starts with, at every point of
  the run from the call of \<open>net.Listen\<close> on, the status of the empty service name is
  SERVING; so it is set before the listener exists and never changed afterwards. The
  dependencies of the process play no part: the program does not read them.
\<close>

theorem health_status_always_serving:
  "(\<forall>s st. SetServingStatus s st \<in> set (fst (main w)) \<longrightarrow> s = [] \<and> st = SERVING) \<and>
   (\<forall>q n. prefix q (fst (main w)) \<and> net_Listen n \<in> set q \<longrightarrow>
           health_after m q [] = Some SERVING)"
  using only_serving_set serving_from_listen by blast

theorem health_status_always_serving_witness:
  "prefix (wiring 9443) (fst (main plain_start)) \<and> net_Listen 9443 \<in> set (wiring 9443) \<and>
   health_after [[] \<mapsto> NOT_SERVING] (wiring 9443) [] = Some SERVING \<and>
   health_after [[] \<mapsto> NOT_SERVING] (fst (main plain_start)) [] = Some SERVING"
proof -
  have m: "fst (main plain_start) =
      wiring 9443 @ startup plain_start (newHandler Map.empty) \<lparr>port = 9443, healthPort = 8080\<rparr> @
        shutdown (newHandler Map.empty)"
    by (simp add: main_def plain_start_def Let_def)
  have p: "prefix (wiring 9443) (fst (main plain_start))" unfolding m by simp
  have q: "prefix (fst (main plain_start)) (fst (main plain_start))" by simp
  have n: "net_Listen 9443 \<in> set (wiring 9443)" by (simp add: wiring_def)
  then have n': "net_Listen 9443 \<in> set (fst (main plain_start))" unfolding m by simp
  from health_status_always_serving [of plain_start "[[] \<mapsto> NOT_SERVING]"] p q n n'
  show ?thesis by blast
qed

text \<open>
  C10. If the program reaches the listen on a port and that listen fails, it logs the
  error through its logger at level Error, which every configuration of the logger
  lets through, and exits with status 1. The failed listen is the last thing before the
  record: no goroutine is started and no HTTP server is created.
\<close>

theorem listen_failure_exits:
  assumes "net_Listen p \<in> set (fst (main w))" and "Listen_err w p = Some err"
  shows "main w =
           (wiring p @
              [Log (newHandler (Environ w)) LevelError ''Failed to listen'' [(''error'', AError err)]],
            Exit 1) \<and>
         Enabled (newHandler (Environ w)) LevelError \<and>
         go_Serve \<notin> set (fst (main w)) \<and> go_ListenAndServe \<notin> set (fst (main w)) \<and>
         (\<forall>n. http_Server n \<notin> set (fst (main w)))"
  unfolding main_listen_failed [OF assms]
  by (simp add: error_enabled wiring_def)

theorem listen_failure_exits_witness:
  "net_Listen 9443 \<in> set (fst (main port_taken)) \<and>
   Listen_err port_taken 9443 = Some ''address already in use'' \<and>
   main port_taken =
     (wiring 9443 @
        [Log \<lparr>kind = TextHandler, min_level = LevelInfo\<rparr> LevelError ''Failed to listen''
           [(''error'', AError ''address already in use'')]],
      Exit 1) \<and>
   go_Serve \<notin> set (fst (main port_taken))"
proof -
  have l: "Listen_err port_taken 9443 = Some ''address already in use''"
    by (simp add: port_taken_def)
  have n: "net_Listen 9443 \<in> set (fst (main port_taken))"
    by (simp add: main_def port_taken_def Let_def wiring_def)
  have h: "newHandler (Environ port_taken) = \<lparr>kind = TextHandler, min_level = LevelInfo\<rparr>"
    by (simp add: port_taken_def newHandler_def getLogLevel_def Getenv_def)
  note th = listen_failure_exits [OF n l, unfolded h]
  from th have 1: "main port_taken =
     (wiring 9443 @
        [Log \<lparr>kind = TextHandler, min_level = LevelInfo\<rparr> LevelError ''Failed to listen''
           [(''error'', AError ''address already in use'')]],
      Exit 1)"
    by (rule conjunct1)
  from th have 2: "go_Serve \<notin> set (fst (main port_taken))"
    by blast
  from n l 1 2 show ?thesis by (intro conjI)
qed

end
